theory Spec2Isabelle
  imports Main "HOL-Library.Sublist"
begin

section \<open>Python values used by main.py\<close>

subsection \<open>Exceptions\<close>

text \<open>
  The exception classes that main.py raises, names in an \<open>except\<close> clause, or can
  receive from the libraries it calls. \<open>OtherException\<close> stands for every other subclass
  of \<open>Exception\<close> (aiohttp.ClientError, discord.HTTPException, the model client's
  errors); \<open>NonException\<close> for a \<open>BaseException\<close> that is not an \<open>Exception\<close>
  (asyncio.CancelledError, KeyboardInterrupt), which \<open>except Exception\<close> does not catch.
  An exception value carries its class and \<open>str(e)\<close>.
\<close>

datatype exn_class =
    JSONDecodeError
  | BlockedPromptException
  | NotFound
  | AttributeError
  | IndexError
  | ValueError
  | OtherException
  | NonException

datatype exn = Exn (cls: exn_class) (str: string)

fun is_Exception :: "exn_class \<Rightarrow> bool" where
  "is_Exception NonException = False"
| "is_Exception _ = True"

text \<open>Sequencing of computations that may raise: the first error wins.\<close>

definition ebind :: "exn + 'a \<Rightarrow> ('a \<Rightarrow> exn + 'b) \<Rightarrow> exn + 'b" where
  "ebind r f = (case r of Inl e \<Rightarrow> Inl e | Inr x \<Rightarrow> f x)"

subsection \<open>Strings\<close>

text \<open>\<open>sub in s\<close>: \<open>sub\<close> occurs in \<open>s\<close> as a contiguous substring.\<close>

fun py_in :: "string \<Rightarrow> string \<Rightarrow> bool" where
  "py_in sub [] = (sub = [])"
| "py_in sub (c # cs) = (prefix sub (c # cs) \<or> py_in sub cs)"

text \<open>
  The first occurrence of \<open>sep\<close> in \<open>s\<close>, scanning from the left: the text before
  it and the text after it (\<open>str.partition\<close> without the separator).
\<close>

fun find_first :: "string \<Rightarrow> string \<Rightarrow> (string \<times> string) option" where
  "find_first sep [] = (if sep = [] then Some ([], []) else None)"
| "find_first sep (c # cs) =
     (if prefix sep (c # cs) then Some ([], drop (length sep) (c # cs))
      else map_option (\<lambda>(a, b). (c # a, b)) (find_first sep cs))"

lemma find_first_append:
  "find_first sep s = Some (a, b) \<Longrightarrow> s = a @ sep @ b"
proof (induction s arbitrary: a)
  case Nil
  then show ?case by (simp split: if_splits)
next
  case (Cons c cs)
  show ?case
  proof (cases "prefix sep (c # cs)")
    case True
    with Cons.prems have "a = []" "b = drop (length sep) (c # cs)" by auto
    moreover from True have "c # cs = sep @ drop (length sep) (c # cs)"
      by (metis append_eq_conv_conj prefixE)
    ultimately show ?thesis by simp
  next
    case False
    with Cons.prems obtain a' where a': "find_first sep cs = Some (a', b)" "a = c # a'"
      by auto
    from Cons.IH [OF a'(1)] a'(2) show ?thesis by simp
  qed
qed

lemma find_first_shorter:
  "find_first sep s = Some (a, b) \<Longrightarrow> sep \<noteq> [] \<Longrightarrow> length b < length s"
  by (drule find_first_append) (cases sep, auto)

text \<open>
  \<open>s.split(sep)\<close> with an explicit separator: the pieces between the non-overlapping
  occurrences of \<open>sep\<close>, found from the left. Python raises ValueError on an empty
  separator.
\<close>

function split_at :: "string \<Rightarrow> string \<Rightarrow> string list" where
  "split_at sep s =
     (if sep = [] then [s]
      else case find_first sep s of
             None \<Rightarrow> [s]
           | Some (a, b) \<Rightarrow> a # split_at sep b)"
  by pat_completeness auto
termination
  by (relation "measure (\<lambda>(sep, s). length s)") (auto simp: find_first_shorter)

definition py_split :: "string \<Rightarrow> string \<Rightarrow> exn + string list" where
  "py_split sep s =
     (if sep = [] then Inl (Exn ValueError ''empty separator'') else Inr (split_at sep s))"

text \<open>\<open>xs[i]\<close> for a non-negative index: IndexError when out of range.\<close>

definition getitem :: "'a list \<Rightarrow> nat \<Rightarrow> exn + 'a" where
  "getitem xs i =
     (if i < length xs then Inr (xs ! i) else Inl (Exn IndexError ''list index out of range''))"

text \<open>
  \<open>str.isspace\<close> on one character, for the code points below 256, and \<open>s.strip()\<close>,
  which removes the whitespace at both ends.
\<close>

definition isspace :: "char \<Rightarrow> bool" where
  "isspace c = (of_char c \<in> {9, 10, 11, 12, 13, 28, 29, 30, 31, 32, 133, 160 :: nat})"

definition py_strip :: "string \<Rightarrow> string" where
  "py_strip s = rev (dropWhile isspace (rev (dropWhile isspace s)))"

definition startswith :: "string \<Rightarrow> string \<Rightarrow> bool" where
  "startswith s p = prefix p s"

definition endswith :: "string \<Rightarrow> string \<Rightarrow> bool" where
  "endswith s p = suffix p s"

section \<open>The JSON extractor (main.py, lines 129 to 145)\<close>

text \<open>
  \<open>json.JSONDecodeError(msg, doc, pos)\<close> with \<open>pos = 0\<close>: its \<open>str\<close> is the message
  followed by the position, which is line 1, column 1 for position 0.
\<close>

definition JSONDecodeError_at_0 :: "string \<Rightarrow> exn" where
  "JSONDecodeError_at_0 msg = Exn JSONDecodeError (msg @ '': line 1 column 1 (char 0)'')"

text \<open>Lines 129 to 143: the string handed to the parser, or the error raised before it.\<close>

definition extract_json_str :: "string \<Rightarrow> exn + string" where
  "extract_json_str gemini_response_text =
     ebind
       (if py_in ''```json'' gemini_response_text then
          ebind (py_split ''```json'' gemini_response_text) (\<lambda>parts.
          ebind (getitem parts 1) (\<lambda>part.
          ebind (py_split ''```'' part) (\<lambda>pieces.
          ebind (getitem pieces 0) (\<lambda>piece. Inr (py_strip piece)))))
        else if py_in ''```'' gemini_response_text then
          ebind (py_split ''```'' gemini_response_text) (\<lambda>parts.
          ebind (getitem parts 1) (\<lambda>part.
          ebind (py_split ''```'' part) (\<lambda>pieces.
          ebind (getitem pieces 0) (\<lambda>piece. Inr (py_strip piece)))))
        else if startswith (py_strip gemini_response_text) ''{''
                \<and> endswith (py_strip gemini_response_text) ''}'' then
          Inr (py_strip gemini_response_text)
        else
          Inl (JSONDecodeError_at_0 ''No clear JSON block found in Gemini response.''))
       (\<lambda>json_str.
          if json_str = [] then Inl (JSONDecodeError_at_0 ''Extracted JSON string is empty.'')
          else Inr json_str)"

definition extract_json :: "(string \<Rightarrow> exn + 'j) \<Rightarrow> string \<Rightarrow> exn + 'j" where
  "extract_json json_loads gemini_response_text =
     ebind (extract_json_str gemini_response_text) json_loads"

text \<open>
  The extraction read off the first occurrences of the two markers: with the marker of a
  fence labelled json in the text, the candidate is the trimmed text after the first such
  marker, up to the next marker of that kind and the next fence marker, or to the end of
  the text when none follows; else with a fence marker in the text, the trimmed text after
  the first marker up to the next one, or to the end; else the trimmed text when it stands
  between braces. Without a candidate, or with an empty one, the extractor fails before it
  parses; otherwise the result is the parser's.
\<close>

definition before_first :: "string \<Rightarrow> string \<Rightarrow> string" where
  "before_first sep s = (case find_first sep s of None \<Rightarrow> s | Some (a, b) \<Rightarrow> a)"

definition after_first :: "string \<Rightarrow> string \<Rightarrow> string" where
  "after_first sep s = (case find_first sep s of None \<Rightarrow> [] | Some (a, b) \<Rightarrow> b)"

definition marker_content :: "string \<Rightarrow> string \<Rightarrow> string" where
  "marker_content opening text =
     before_first ''```'' (before_first opening (after_first opening text))"

definition marker_candidate :: "string \<Rightarrow> string option" where
  "marker_candidate text =
     (if py_in ''```json'' text then Some (py_strip (marker_content ''```json'' text))
      else if py_in ''```'' text then Some (py_strip (marker_content ''```'' text))
      else if startswith (py_strip text) ''{'' \<and> endswith (py_strip text) ''}''
        then Some (py_strip text)
      else None)"

definition extract_by_markers :: "(string \<Rightarrow> exn + 'j) \<Rightarrow> string \<Rightarrow> exn + 'j" where
  "extract_by_markers parse text =
     (case marker_candidate text of
        None \<Rightarrow> Inl (JSONDecodeError_at_0 ''No clear JSON block found in Gemini response.'')
      | Some c \<Rightarrow>
          if c = [] then Inl (JSONDecodeError_at_0 ''Extracted JSON string is empty.'')
          else parse c)"






section \<open>The values and the collaborators of the message handler\<close>

subsection \<open>Parsed JSON\<close>

text \<open>
  What \<open>json.loads\<close> returns: None, a bool, an int, a float, a str, a list or a dict
  (in insertion order). A finite float is a mantissa and a binary exponent; only whether
  it is zero matters to the handler.
\<close>

datatype pyfloat = Finite int int | Infinite bool | NaN

datatype json =
    JNull
  | JBool bool
  | JInt int
  | JFloat pyfloat
  | JString string
  | JArray "json list"
  | JObject "(string \<times> json) list"

text \<open>Python's truth value of a parsed JSON value, as \<open>if not event_details\<close> tests it.\<close>

fun truthy :: "json \<Rightarrow> bool" where
  "truthy JNull = False"
| "truthy (JBool b) = b"
| "truthy (JInt i) = (i \<noteq> 0)"
| "truthy (JFloat (Finite m e)) = (m \<noteq> 0)"
| "truthy (JFloat _) = True"
| "truthy (JString s) = (s \<noteq> [])"
| "truthy (JArray xs) = (xs \<noteq> [])"
| "truthy (JObject kvs) = (kvs \<noteq> [])"

text \<open>\<open>str(n)\<close> for an int, as an f-string formats the HTTP status.\<close>

function str_nat :: "nat \<Rightarrow> string" where
  "str_nat n =
     (if n < 10 then [''0123456789'' ! n]
      else str_nat (n div 10) @ [''0123456789'' ! (n mod 10)])"
  by pat_completeness auto
termination
  by (relation "measure (\<lambda>n. n)") auto

declare str_nat.simps [simp del]

definition str_int :: "int \<Rightarrow> string" where
  "str_int i = (if i < 0 then CHR ''-'' # str_nat (nat (- i)) else str_nat (nat i))"

subsection \<open>Serialised event records\<close>

text \<open>
  An event record with string values, as the list of its items in the dict's order, and
  what \<open>json.dumps\<close> writes for it with its default settings: the items separated by a
  comma and a space, key and value by a colon and a space, and every string between double
  quotes with the quote, the backslash and every character outside the printable ASCII
  range escaped. \<open>record_json\<close> is the value \<open>json.loads\<close> gives back for it.
\<close>

definition escape_char :: "char \<Rightarrow> string" where
  "escape_char c =
     (if c = CHR 0x22 then [CHR 0x5C, CHR 0x22]
      else if c = CHR 0x5C then [CHR 0x5C, CHR 0x5C]
      else if c = CHR 0x0A then [CHR 0x5C, CHR ''n'']
      else if c = CHR 0x0D then [CHR 0x5C, CHR ''r'']
      else if c = CHR 0x09 then [CHR 0x5C, CHR ''t'']
      else if c = CHR 0x08 then [CHR 0x5C, CHR ''b'']
      else if c = CHR 0x0C then [CHR 0x5C, CHR ''f'']
      else if (of_char c :: nat) < 32 \<or> (of_char c :: nat) > 126 then
        [CHR 0x5C, CHR ''u'', CHR ''0'', CHR ''0'',
         ''0123456789abcdef'' ! (of_char c div 16), ''0123456789abcdef'' ! (of_char c mod 16)]
      else [c])"

definition encode_basestring_ascii :: "string \<Rightarrow> string" where
  "encode_basestring_ascii s = CHR 0x22 # concat (map escape_char s) @ [CHR 0x22]"

fun join :: "string \<Rightarrow> string list \<Rightarrow> string" where
  "join sep [] = []"
| "join sep [x] = x"
| "join sep (x # y # ys) = x @ sep @ join sep (y # ys)"

definition json_dumps_record :: "(string \<times> string) list \<Rightarrow> string" where
  "json_dumps_record E =
     CHR ''{'' # join '', ''
        (map (\<lambda>(k, v). encode_basestring_ascii k @ '': '' @ encode_basestring_ascii v) E)
       @ [CHR ''}'']"

definition record_json :: "(string \<times> string) list \<Rightarrow> json" where
  "record_json E = JObject (map (\<lambda>(k, v). (k, JString v)) E)"

subsection \<open>Configuration (main.py, lines 13 to 32)\<close>

text \<open>
  The three environment variables, each absent (\<open>getenv\<close> returns None) or a string, and
  the module-level \<open>model\<close>, which is None unless the API key is a non-empty string.
\<close>

record config =
  DISCORD_TOKEN :: "string option"
  GEMINI_API_KEY :: "string option"
  MAKE_WEBHOOK_URL :: "string option"

definition TARGET_CHANNEL_NAME :: string where
  "TARGET_CHANNEL_NAME = ''calendar-agent''"

definition GEMINI_MODEL_NAME :: string where
  "GEMINI_MODEL_NAME = ''gemini-2.0-flash''"

datatype generative_model = GenerativeModel string

definition model :: "config \<Rightarrow> generative_model option" where
  "model cfg =
     (case GEMINI_API_KEY cfg of
        None \<Rightarrow> None
      | Some key \<Rightarrow> if key = [] then None else Some (GenerativeModel GEMINI_MODEL_NAME))"

subsection \<open>Messages, reactions and the trace of effects\<close>

type_synonym user = nat

record message =
  author :: user
  channel_name :: string
  content :: string

text \<open>
  The six reactions of main.py, in the order of their first use: thinking face (line 81),
  person shrugging (151), check mark (160), warning sign (164), cross mark (174, 191) and
  prohibited sign (181).
\<close>

datatype emoji = Thinking | Shrug | CheckMark | Warning | CrossMark | Prohibited

text \<open>
  Everything the program does to the outside, in the order it does it. A call is recorded
  when it is made, whether it then returns or raises. The two prints that format a Python
  object (the parsed dict, a traceback) keep the object.
\<close>

datatype event =
    Print string
  | PrintParsed json
  | PrintTraceback exn
  | AddReaction emoji
  | RemoveReaction emoji
  | ChannelSend string
  | GenerateContent string
  | WebhookPost string json
  | ClientRun string

subsection \<open>The collaborators\<close>

text \<open>
  The model's response, whose \<open>text\<close> property returns the text or raises, and the
  webhook's response, with its status and its body (\<open>await webhook_response.text()\<close>).
\<close>

datatype response = Response (response_text: "exn + string")

datatype webhook_response = WebhookResponse (status: int) (webhook_text: "exn + string")

text \<open>
  What lies outside main.py: the bot's own identity, the clock, the chat platform's three
  calls (each returns or raises, possibly depending on everything that happened before),
  the model call, the webhook call and \<open>json.loads\<close>.
\<close>

record env =
  client_user :: user
  current_date_str :: string
  add_reaction :: "event list \<Rightarrow> emoji \<Rightarrow> exn option"
  remove_reaction :: "event list \<Rightarrow> emoji \<Rightarrow> exn option"
  channel_send :: "event list \<Rightarrow> string \<Rightarrow> exn option"
  generate_content_async :: "string \<Rightarrow> exn + response"
  session_post :: "string \<Rightarrow> json \<Rightarrow> exn + webhook_response"
  json_loads :: "string \<Rightarrow> exn + json"

subsection \<open>Statements with effects\<close>

text \<open>
  The state of one run of the handler: the trace so far, and the local variable
  \<open>gemini_response_text\<close>, which the first handler looks up in \<open>locals()\<close>.
  A statement takes the state and returns normally with a value, or raises.
\<close>

record state =
  trace :: "event list"
  bound_gemini_response_text :: "string option"

type_synonym 'a io = "state \<Rightarrow> (exn + 'a) \<times> state"

definition pure :: "'a \<Rightarrow> 'a io" where
  "pure x = (\<lambda>s. (Inr x, s))"

definition raise :: "exn \<Rightarrow> 'a io" where
  "raise e = (\<lambda>s. (Inl e, s))"

definition outcome :: "exn + 'a \<Rightarrow> 'a io" where
  "outcome r = (\<lambda>s. (r, s))"

definition and_then :: "'a io \<Rightarrow> ('a \<Rightarrow> 'b io) \<Rightarrow> 'b io" where
  "and_then m f = (\<lambda>s. case m s of (Inl e, s') \<Rightarrow> (Inl e, s') | (Inr x, s') \<Rightarrow> f x s')"

definition then_do :: "unit io \<Rightarrow> 'b io \<Rightarrow> 'b io" where
  "then_do m n = and_then m (\<lambda>_. n)"

definition try_except :: "'a io \<Rightarrow> (exn \<Rightarrow> 'a io) \<Rightarrow> 'a io" where
  "try_except m handler =
     (\<lambda>s. case m s of (Inl e, s') \<Rightarrow> handler e s' | (Inr x, s') \<Rightarrow> (Inr x, s'))"

definition emit :: "event \<Rightarrow> unit io" where
  "emit ev = (\<lambda>s. (Inr (), s\<lparr>trace := trace s @ [ev]\<rparr>))"

definition print :: "string \<Rightarrow> unit io" where
  "print line = emit (Print line)"

definition platform_call :: "event \<Rightarrow> (event list \<Rightarrow> exn option) \<Rightarrow> unit io" where
  "platform_call ev answer =
     (\<lambda>s. (case answer (trace s) of None \<Rightarrow> Inr () | Some e \<Rightarrow> Inl e,
           s\<lparr>trace := trace s @ [ev]\<rparr>))"

definition request :: "event \<Rightarrow> exn + 'a \<Rightarrow> 'a io" where
  "request ev answer = (\<lambda>s. (answer, s\<lparr>trace := trace s @ [ev]\<rparr>))"

definition message_add_reaction :: "env \<Rightarrow> emoji \<Rightarrow> unit io" where
  "message_add_reaction env em = platform_call (AddReaction em) (\<lambda>h. add_reaction env h em)"

definition message_remove_reaction :: "env \<Rightarrow> emoji \<Rightarrow> unit io" where
  "message_remove_reaction env em =
     platform_call (RemoveReaction em) (\<lambda>h. remove_reaction env h em)"

definition message_channel_send :: "env \<Rightarrow> string \<Rightarrow> unit io" where
  "message_channel_send env reply = platform_call (ChannelSend reply) (\<lambda>h. channel_send env h reply)"

definition run :: "'a io \<Rightarrow> (exn + 'a) \<times> event list" where
  "run m = (case m \<lparr>trace = [], bound_gemini_response_text = None\<rparr> of (r, s) \<Rightarrow> (r, trace s))"

section \<open>The prompt builder (main.py, lines 87 to 112)\<close>

definition build_prompt :: "string \<Rightarrow> string \<Rightarrow> string" where
  "build_prompt message_content date_str = concat
     [''\<newline>'',
      ''            You are an intelligent assistant that extracts calendar event details from text.\<newline>'',
      ''            The output MUST be a valid JSON object.\<newline>'',
      ''            The JSON object must have the following keys:\<newline>'',
      ''            - \"title\": (string) The title or summary of the event.\<newline>'',
      ''            - \"description\": (string) A more detailed description of the event.\<newline>'',
      ''            - \"start_datetime\": (string) The start date and time in ISO 8601 format (YYYY-MM-DDTHH:MM:SS). in EDT timezone.\<newline>'',
      ''            - \"end_datetime\": (string) The end date and time in ISO 8601 format (YYYY-MM-DDTHH:MM:SS). in EDT timezone.\<newline>'',
      ''            - \"duration\": (string, optional) The duration of the event. format (HH:mm)\<newline>'',
      ''            - \"location\": (string, optional) The location of the event.\<newline>'',
      ''\<newline>'',
      ''            Guidelines:\<newline>'',
      ''            - If a value for an optional field (description, location) is not present, use null or omit the key.\<newline>'',
      ''            - If only a date is provided for the start, assume it's an all-day event for that date. For example, \"event on 2025-12-25\" means start_datetime: \"2025-12-25T00:00:00\" and end_datetime: \"2025-12-25T23:59:59\".\<newline>'',
      ''            - If only a start time is provided without a specific date, try to infer the date based on context like \"today\", \"tomorrow\". The current date is '',
      date_str,
      ''.\<newline>'',
      ''            - If only a start datetime is provided, assume the event is 1 hour long for the end_datetime.\<newline>'',
      ''            - If the text does not seem to describe a calendar event, return an empty JSON object {}.\<newline>'',
      ''\<newline>'',
      ''            NOTES: ENSURE ALL TIMEZONES ARE EDT.\<newline>'',
      ''\<newline>'',
      ''            \<newline>'',
      ''            Parse the following text:\<newline>'',
      ''            \"'',
      message_content,
      ''\"\<newline>'',
      ''\<newline>'',
      ''            JSON Output:\<newline>'',
      ''            '']"

section \<open>The message handler (main.py, lines 57 to 192)\<close>

text \<open>
  Lines 119 to 122, 177 to 180 and 187 to 190:
  \<^verbatim>\<open>
  try:
      await message.remove_reaction(thinking, client.user)
  except main.NotFound:
      pass\<close>
  When the call raises, Python evaluates the expression of the \<open>except\<close> clause to match
  the exception against it. In main.py the name \<open>main\<close> is bound once, to the function
  defined at line 195 (no module of that name is imported, and main.py itself defines no
  \<open>NotFound\<close>), and a function object has no attribute \<open>NotFound\<close>: the evaluation
  raises AttributeError, which takes the place of the exception in flight, whatever that
  was.
\<close>

definition remove_thinking :: "env \<Rightarrow> unit io" where
  "remove_thinking env =
     try_except (message_remove_reaction env Thinking)
       (\<lambda>e. raise (Exn AttributeError
                 (CHR 0x27 # ''function' object has no attribute 'NotFound'' @ [CHR 0x27])))"

text \<open>Lines 156 to 165: the one POST and the reflection of its status.\<close>

definition forward :: "env \<Rightarrow> string \<Rightarrow> json \<Rightarrow> unit io" where
  "forward env url event_details =
     and_then (request (WebhookPost url event_details) (session_post env url event_details))
       (\<lambda>webhook_response.
          if status webhook_response \<ge> 200 \<and> status webhook_response < 300 then
            then_do (print (''Webhook request successful: '' @ str_int (status webhook_response)))
                    (message_add_reaction env CheckMark)
          else
            and_then (outcome (webhook_text webhook_response)) (\<lambda>error_text.
            then_do (print (''Webhook request failed: '' @ str_int (status webhook_response)
                             @ '' - '' @ error_text))
           (then_do (message_add_reaction env Warning)
                    (message_channel_send env
                       (''Error sending to calendar: '' @ str_int (status webhook_response)
                          @ '' - '' @ take 1500 error_text)))))"

text \<open>Lines 84 to 165: the body of the \<open>try\<close> statement.\<close>

definition try_body :: "env \<Rightarrow> string \<Rightarrow> message \<Rightarrow> unit io" where
  "try_body env url message =
     and_then (request (GenerateContent (build_prompt (content message) (current_date_str env)))
                 (generate_content_async env
                    (build_prompt (content message) (current_date_str env))))
       (\<lambda>response.
     then_do (remove_thinking env)
    (and_then (outcome (response_text response))
       (\<lambda>text.
     then_do (\<lambda>s. (Inr (), s\<lparr>bound_gemini_response_text := Some text\<rparr>))
    (then_do (print (''Gemini raw response: '' @ text))
    (and_then (outcome (extract_json (json_loads env) text))
       (\<lambda>event_details.
     then_do (emit (PrintParsed event_details))
       (if \<not> truthy event_details then
          then_do (print ''Gemini parsed no event details. Not sending to webhook.'')
                  (message_add_reaction env Shrug)
        else forward env url event_details)))))))"

text \<open>Lines 167 to 174: \<open>except json.JSONDecodeError as e\<close>.\<close>

definition on_JSONDecodeError :: "env \<Rightarrow> exn \<Rightarrow> unit io" where
  "on_JSONDecodeError env e =
     then_do (print (''Error decoding JSON from Gemini: '' @ str e))
    (then_do
       (\<lambda>s. (case bound_gemini_response_text s of
                Some text \<Rightarrow>
                  then_do (print (''Gemini raw response was: '' @ text))
                    (message_channel_send env
                       (''Sorry, I couldn't understand the event details. Gemini's response: ```\<newline>''
                          @ take 1500 text @ ''\<newline>```''))
              | None \<Rightarrow>
                  message_channel_send env
                    ''Sorry, I couldn't understand the event details (no response from Gemini).'') s)
       (message_add_reaction env CrossMark))"

text \<open>Lines 175 to 182: \<open>except genai.types.generation_types.BlockedPromptException as e\<close>.\<close>

definition on_BlockedPromptException :: "env \<Rightarrow> exn \<Rightarrow> unit io" where
  "on_BlockedPromptException env e =
     then_do (print (''Gemini API call failed due to blocked prompt: '' @ str e))
    (then_do (remove_thinking env)
    (then_do (message_add_reaction env Prohibited)
             (message_channel_send env
                ''Sorry, your request was blocked by content safety filters.'')))"

text \<open>Lines 183 to 192: \<open>except Exception as e\<close>.\<close>

definition on_Exception :: "env \<Rightarrow> exn \<Rightarrow> unit io" where
  "on_Exception env e =
     then_do (print (''An unexpected error occurred: '' @ str e))
    (then_do (emit (PrintTraceback e))
    (then_do (remove_thinking env)
    (then_do (message_add_reaction env CrossMark)
             (message_channel_send env
                (''An unexpected error occurred: '' @ take 1000 (str e))))))"

text \<open>
  The three \<open>except\<close> clauses in their order; an exception that none of them names
  propagates.
\<close>

definition handlers :: "env \<Rightarrow> exn \<Rightarrow> unit io" where
  "handlers env e =
     (if cls e = JSONDecodeError then on_JSONDecodeError env e
      else if cls e = BlockedPromptException then on_BlockedPromptException env e
      else if is_Exception (cls e) then on_Exception env e
      else raise e)"

text \<open>Lines 76 to 192: what the handler does with a message that passed every check.\<close>

definition pipeline :: "env \<Rightarrow> string \<Rightarrow> message \<Rightarrow> unit io" where
  "pipeline env url message =
     then_do (print (''Received message in '' @ CHR 0x27 # TARGET_CHANNEL_NAME
                       @ CHR 0x27 # '': \"'' @ content message @ ''\"''))
    (then_do (message_add_reaction env Thinking)
             (try_except (try_body env url message) (handlers env)))"

definition on_message :: "config \<Rightarrow> env \<Rightarrow> message \<Rightarrow> unit io" where
  "on_message cfg env message =
     (if author message = client_user env then pure ()
      else if channel_name message = TARGET_CHANNEL_NAME then
        (if model cfg = None then
           print ''Gemini model not initialized. Skipping message processing.''
         else
           (case MAKE_WEBHOOK_URL cfg of
              None \<Rightarrow> print ''Make.com webhook URL not configured. Skipping message processing.''
            | Some url \<Rightarrow>
                if url = [] then
                  print ''Make.com webhook URL not configured. Skipping message processing.''
                else pipeline env url message))
      else pure ())"

section \<open>Start-up (main.py, lines 195 to 199)\<close>

definition main :: "config \<Rightarrow> event list" where
  "main cfg =
     (case DISCORD_TOKEN cfg of
        None \<Rightarrow> [Print ''DISCORD_TOKEN not found in .env file. Bot cannot start.'']
      | Some token \<Rightarrow>
          if token = [] then [Print ''DISCORD_TOKEN not found in .env file. Bot cannot start.'']
          else [ClientRun token])"

section \<open>Test doubles\<close>

text \<open>Python's \<open>not v\<close> for an environment variable: unset, or the empty string.\<close>

definition missing :: "string option \<Rightarrow> bool" where
  "missing v = (v = None \<or> v = Some [])"

text \<open>
  A configuration with every variable set, a message of another user in the target channel,
  and collaborators that always succeed: the chat platform accepts every call, the model
  returns \<open>answer\<close> and the webhook returns \<open>delivery\<close>. \<open>sample_json_loads\<close> answers
  as \<open>json.loads\<close> does on the documents of the examples: the empty object, an object
  with one title, and an object cut inside its first string value; every other text of
  the examples starts no JSON value.
\<close>

definition sample_config :: config where
  "sample_config =
     \<lparr>DISCORD_TOKEN = Some ''token'', GEMINI_API_KEY = Some ''key'',
      MAKE_WEBHOOK_URL = Some ''https://hook.example/calendar''\<rparr>"

definition sample_message :: message where
  "sample_message =
     \<lparr>author = 2, channel_name = ''calendar-agent'', content = ''Lunch with Ana tomorrow at noon''\<rparr>"

definition sample_json_loads :: "string \<Rightarrow> exn + json" where
  "sample_json_loads s =
     (if s = ''{}'' then Inr (JObject [])
      else if s = ''{\"title\": \"Lunch\"}'' then Inr (JObject [(''title'', JString ''Lunch'')])
      else if s = ''{\"title\": \"'' then
        Inl (Exn JSONDecodeError ''Unterminated string starting at: line 1 column 11 (char 10)'')
      else Inl (Exn JSONDecodeError ''Expecting value: line 1 column 1 (char 0)''))"

definition sample_env :: "exn + response \<Rightarrow> exn + webhook_response \<Rightarrow> env" where
  "sample_env answer delivery =
     \<lparr>client_user = 1, current_date_str = ''2025-12-24'',
      add_reaction = (\<lambda>h em. None), remove_reaction = (\<lambda>h em. None),
      channel_send = (\<lambda>h reply. None),
      generate_content_async = (\<lambda>prompt. answer),
      session_post = (\<lambda>url body. delivery),
      json_loads = sample_json_loads\<rparr>"


text \<open>An event whose title is a code fence marker.\<close>

definition backtick_event :: "(string \<times> string) list" where
  "backtick_event =
     [(''title'', ''```''), (''start_datetime'', ''2025-12-25T00:00:00''),
      (''end_datetime'', ''2025-12-25T23:59:59'')]"

section \<open>The pipeline: observations\<close>

text \<open>
  A message enters the pipeline when it passes the filter and both configuration checks:
  another user wrote it in the target channel, the model key is set and the webhook URL is
  the non-empty string \<open>url\<close>. \<open>received_line\<close> is the line printed at line 77,
  \<open>prompt_of\<close> the prompt sent to the model, \<open>posts\<close> the webhook calls of a trace.
\<close>

definition enters_pipeline :: "config \<Rightarrow> env \<Rightarrow> message \<Rightarrow> string \<Rightarrow> bool" where
  "enters_pipeline cfg env message url =
     (author message \<noteq> client_user env \<and> channel_name message = TARGET_CHANNEL_NAME
      \<and> \<not> missing (GEMINI_API_KEY cfg) \<and> MAKE_WEBHOOK_URL cfg = Some url \<and> url \<noteq> [])"

definition received_line :: "message \<Rightarrow> string" where
  "received_line message =
     ''Received message in '' @ CHR 0x27 # TARGET_CHANNEL_NAME
        @ CHR 0x27 # '': \"'' @ content message @ ''\"''"

definition prompt_of :: "env \<Rightarrow> message \<Rightarrow> string" where
  "prompt_of env message = build_prompt (content message) (current_date_str env)"

definition posts :: "event list \<Rightarrow> (string \<times> json) list" where
  "posts tr = concat (map (\<lambda>ev. case ev of WebhookPost u j \<Rightarrow> [(u, j)] | _ \<Rightarrow> []) tr)"

text \<open>The state in which the parsed event reaches the forwarding step.\<close>

definition parsed_trace :: "env \<Rightarrow> message \<Rightarrow> string \<Rightarrow> json \<Rightarrow> event list" where
  "parsed_trace env message body event_details =
     [Print (received_line message), AddReaction Thinking,
      GenerateContent (prompt_of env message), RemoveReaction Thinking,
      Print (''Gemini raw response: '' @ body), PrintParsed event_details]"

text \<open>What the last handler appends to the trace when its three calls succeed.\<close>

definition unexpected_report :: "exn \<Rightarrow> event list" where
  "unexpected_report e =
     [Print (''An unexpected error occurred: '' @ str e), PrintTraceback e,
      RemoveReaction Thinking, AddReaction CrossMark,
      ChannelSend (''An unexpected error occurred: '' @ take 1000 (str e))]"

text \<open>
  More test doubles: the webhook URL of \<open>sample_config\<close>, a model answer with one event
  in a fenced block and its parsed value, the AttributeError that the \<open>except\<close> clauses
  of the removal raise, a model that is down, the same with a platform that refuses the
  cross mark reaction, and a platform on which the thinking reaction is already gone.
\<close>

definition sample_url :: string where
  "sample_url = ''https://hook.example/calendar''"

definition lunch_answer :: string where
  "lunch_answer = ''```json\<newline>{\"title\": \"Lunch\"}\<newline>```''"

definition lunch_event :: json where
  "lunch_event = JObject [(''title'', JString ''Lunch'')]"

definition attribute_error :: exn where
  "attribute_error =
     Exn AttributeError (CHR 0x27 # ''function' object has no attribute 'NotFound'' @ [CHR 0x27])"

definition model_down :: env where
  "model_down =
     sample_env (Inl (Exn OtherException ''503 Service Unavailable''))
       (Inr (WebhookResponse 200 (Inr ''ok'')))"

definition model_down_reactions_forbidden :: env where
  "model_down_reactions_forbidden =
     model_down\<lparr>add_reaction :=
       (\<lambda>h em. if em = CrossMark then Some (Exn OtherException ''403 Forbidden'') else None)\<rparr>"

definition reaction_already_gone :: env where
  "reaction_already_gone =
     (sample_env (Inr (Response (Inr ''{}''))) (Inr (WebhookResponse 200 (Inr ''ok''))))
       \<lparr>remove_reaction := (\<lambda>h em. Some (Exn NotFound ''404 Not Found (error code: 10008): Unknown Message''))\<rparr>"

section \<open>Facts about the string operations and the extractor\<close>

declare split_at.simps [simp del]

subsection \<open>Facts about substring search and splitting\<close>

lemma py_in_sublist: "py_in sub s = sublist sub s"
  by (induction s) (auto simp: sublist_Cons_right)

lemma prefix_sep_char: "c \<notin> set sub \<Longrightarrow> prefix sub (c # y) \<Longrightarrow> sub = []"
  by (cases sub) auto

lemma sublist_sep_char:
  assumes "c \<notin> set sub"
  shows "sublist sub (x @ c # y) \<longleftrightarrow> sublist sub x \<or> sublist sub y"
proof
  assume "sublist sub (x @ c # y)"
  then consider "sublist sub x" | "sublist sub (c # y)"
    | xs1 xs2 where "sub = xs1 @ xs2" "suffix xs1 x" "prefix xs2 (c # y)"
    unfolding sublist_append by blast
  then show "sublist sub x \<or> sublist sub y"
  proof cases
    case 1
    then show ?thesis by simp
  next
    case 2
    then have "prefix sub (c # y) \<or> sublist sub y" by (simp add: sublist_Cons_right)
    moreover have "sublist sub y" if "prefix sub (c # y)"
      using prefix_sep_char [OF assms that] by simp
    ultimately show ?thesis by blast
  next
    case 3
    from assms 3(1) have "c \<notin> set xs2" by simp
    from prefix_sep_char [OF this 3(3)] have "xs2 = []" .
    with 3(1,2) show ?thesis by simp
  qed
next
  assume "sublist sub x \<or> sublist sub y"
  then show "sublist sub (x @ c # y)"
  proof
    assume "sublist sub x"
    then obtain p q where "x = p @ sub @ q" unfolding sublist_def by blast
    then have "x @ c # y = p @ sub @ (q @ c # y)" by simp
    then show ?thesis unfolding sublist_def by blast
  next
    assume "sublist sub y"
    then obtain p q where "y = p @ sub @ q" unfolding sublist_def by blast
    then have "x @ c # y = (x @ c # p) @ sub @ q" by simp
    then show ?thesis unfolding sublist_def by blast
  qed
qed

lemma find_first_None: "find_first sep s = None \<longleftrightarrow> \<not> sublist sep s"
  by (induction s) (auto simp: sublist_Cons_right)

lemma prefix_take_longer:
  "prefix p (u @ w) \<Longrightarrow> length p \<le> length u \<Longrightarrow> prefix p u"
  by (auto simp: prefix_append dest: prefix_length_le)

lemma find_first_first:
  "\<not> sublist sep (a @ butlast sep) \<Longrightarrow> sep \<noteq> [] \<Longrightarrow> find_first sep (a @ sep @ b) = Some (a, b)"
proof (induction a)
  case Nil
  then obtain c cs where "sep = c # cs" by (cases sep) auto
  then show ?case by simp
next
  case (Cons x a)
  have "\<not> prefix sep (x # a @ sep @ b)"
  proof
    assume p: "prefix sep (x # a @ sep @ b)"
    from Cons.prems(2) have "(butlast sep @ [last sep]) @ b = sep @ b" by simp
    then have "butlast sep @ last sep # b = sep @ b" by simp
    then have "x # a @ sep @ b = ((x # a) @ butlast sep) @ (last sep # b)" by simp
    with p have "prefix sep (((x # a) @ butlast sep) @ (last sep # b))" by simp
    moreover have "length sep \<le> length ((x # a) @ butlast sep)" by simp
    ultimately have "prefix sep ((x # a) @ butlast sep)" by (rule prefix_take_longer)
    then have "sublist sep ((x # a) @ butlast sep)" by (rule prefix_imp_sublist)
    with Cons.prems(1) show False by blast
  qed
  moreover from Cons.prems(1) have "\<not> sublist sep (a @ butlast sep)"
    by (simp add: sublist_Cons_right)
  ultimately show ?case using Cons.IH Cons.prems(2) by simp
qed

subsection \<open>The extractor follows the priority order\<close>

lemma split_at_0:
  "sep \<noteq> [] \<Longrightarrow> getitem (split_at sep s) 0 = Inr (before_first sep s)"
  by (subst split_at.simps) (simp add: getitem_def before_first_def split: option.split)

lemma split_at_1:
  assumes "sep \<noteq> []" "py_in sep s"
  shows "getitem (split_at sep s) (Suc 0) = Inr (before_first sep (after_first sep s))"
proof -
  from assms(2) obtain a b where ab: "find_first sep s = Some (a, b)"
    using find_first_None [of sep s] by (auto simp: py_in_sublist)
  then have "split_at sep s = a # split_at sep b"
    using assms(1) by (subst split_at.simps) simp
  moreover have "getitem (a # split_at sep b) (Suc 0) = getitem (split_at sep b) 0"
    by (simp add: getitem_def)
  ultimately show ?thesis
    using split_at_0 [OF assms(1), of b] ab by (simp add: after_first_def)
qed

lemma fenced_piece:
  assumes "opening \<noteq> []" "py_in opening text"
  shows "ebind (py_split opening text) (\<lambda>parts.
         ebind (getitem parts 1) (\<lambda>part.
         ebind (py_split ''```'' part) (\<lambda>pieces.
         ebind (getitem pieces 0) (\<lambda>piece. Inr (py_strip piece)))))
       = Inr (py_strip (marker_content opening text))"
  using assms
  by (simp add: py_split_def ebind_def split_at_1 split_at_0 marker_content_def)

lemma extract_json_str_candidate:
  "extract_json_str text =
     (case marker_candidate text of
        None \<Rightarrow> Inl (JSONDecodeError_at_0 ''No clear JSON block found in Gemini response.'')
      | Some c \<Rightarrow>
          if c = [] then Inl (JSONDecodeError_at_0 ''Extracted JSON string is empty.'')
          else Inr c)"
proof -
  consider (a) "py_in ''```json'' text"
    | (b) "\<not> py_in ''```json'' text" "py_in ''```'' text"
    | (c) "\<not> py_in ''```json'' text" "\<not> py_in ''```'' text"
    by blast
  then show ?thesis
  proof cases
    case a
    have "''```json'' \<noteq> []" by simp
    from fenced_piece [OF this a] a show ?thesis
      unfolding extract_json_str_def marker_candidate_def
      by (simp only: if_True) (simp add: ebind_def)
  next
    case b
    have "''```'' \<noteq> []" by simp
    from fenced_piece [OF this b(2)] b show ?thesis
      unfolding extract_json_str_def marker_candidate_def
      by (simp only: if_True if_False) (simp add: ebind_def)
  next
    case c
    then show ?thesis
      unfolding extract_json_str_def marker_candidate_def
      by (simp add: ebind_def)
  qed
qed

lemma extract_json_by_markers: "extract_json parse text = extract_by_markers parse text"
  by (simp add: extract_json_def extract_by_markers_def extract_json_str_candidate ebind_def
      split: option.split)


lemma isspace_simps: "isspace CHR 0x0A" "\<not> isspace CHR ''{''" "\<not> isspace CHR ''}''"
  by (simp_all add: isspace_def)

lemma py_strip_lines:
  assumes "D = CHR ''{'' # D'" "last D = CHR ''}''"
  shows "py_strip (CHR 0x0A # D @ [CHR 0x0A]) = D"
proof -
  from assms obtain B where B: "D = B @ [CHR ''}'']"
    by (metis append_butlast_last_id list.distinct(1))
  have "dropWhile isspace (CHR 0x0A # D @ [CHR 0x0A]) = D @ [CHR 0x0A]"
    by (subst (1 2) assms(1)) (simp add: isspace_simps)
  moreover have "dropWhile isspace (rev (D @ [CHR 0x0A])) = rev D"
    by (subst (1 2) B) (simp add: isspace_simps)
  ultimately show ?thesis by (simp only: py_strip_def rev_rev_ident)
qed

lemma not_in_json_fence: "\<not> py_in ''```'' s \<Longrightarrow> \<not> py_in ''```json'' s"
proof
  assume n: "\<not> py_in ''```'' s" and "py_in ''```json'' s"
  then obtain p q where "s = p @ ''```json'' @ q" by (auto simp: py_in_sublist sublist_def)
  then have "s = p @ ''```'' @ (''json'' @ q)" by simp
  then have "py_in ''```'' s" unfolding py_in_sublist sublist_def by blast
  with n show False by simp
qed

lemma find_first_prefix: "sep \<noteq> [] \<Longrightarrow> find_first sep (sep @ r) = Some ([], r)"
  by (cases sep) simp_all

lemma marker_content_labelled:
  assumes "opening \<noteq> []" "find_first opening R = None" "find_first ''```'' R = Some (X, Y)"
  shows "marker_content opening (opening @ R) = X"
  using assms
  by (simp add: marker_content_def after_first_def before_first_def find_first_prefix)

lemma marker_content_plain:
  assumes "find_first ''```'' R = Some (X, Y)" "find_first ''```'' X = None"
  shows "marker_content ''```'' (''```'' @ R) = X"
proof -
  have "find_first ''```'' (''```'' @ R) = Some ([], R)"
    by (rule find_first_prefix) simp
  with assms show ?thesis
    by (simp only: marker_content_def after_first_def before_first_def option.case prod.case)
qed

lemma fenced_block:
  assumes D: "D = CHR ''{'' # D'" "last D = CHR ''}''" and nf: "\<not> py_in ''```'' D"
  shows "marker_candidate (''```json'' @ CHR 0x0A # D @ CHR 0x0A # ''```'') = Some D"
    and "marker_candidate (''```'' @ CHR 0x0A # D @ CHR 0x0A # ''```'') = Some D"
proof -
  define R where "R = CHR 0x0A # D @ CHR 0x0A # ''```''"
  define X where "X = CHR 0x0A # D @ [CHR 0x0A]"
  have R: "R = X @ ''```'' @ []" by (simp add: R_def X_def)
  have nl: "CHR 0x0A \<notin> set ''```''" "CHR 0x0A \<notin> set ''```json''" by simp_all
  from nf have nD: "\<not> sublist ''```'' D" "\<not> sublist ''```json'' D"
    using not_in_json_fence by (simp_all add: py_in_sublist)
  have s2: "\<not> sublist ''```'' ''``''" "\<not> sublist ''```'' []" by (simp_all add: sublist_code)
  have s3: "\<not> sublist ''```json'' ''```''" by (simp add: sublist_code)
  have "\<not> sublist ''```'' ([] @ CHR 0x0A # (D @ CHR 0x0A # ''``''))"
    unfolding sublist_sep_char [OF nl(1)] using nD(1) s2 by simp
  then have "\<not> sublist ''```'' (X @ butlast ''```'')" by (simp add: X_def)
  then have "find_first ''```'' (X @ ''```'' @ []) = Some (X, [])"
    by (rule find_first_first) simp
  then have ff: "find_first ''```'' R = Some (X, [])" by (simp only: R)
  have "\<not> sublist ''```'' ([] @ CHR 0x0A # (D @ CHR 0x0A # []))"
    unfolding sublist_sep_char [OF nl(1)] using nD(1) s2 by simp
  then have "\<not> sublist ''```'' X" by (simp add: X_def)
  then have nX: "find_first ''```'' X = None" unfolding find_first_None .
  have "\<not> sublist ''```json'' ([] @ CHR 0x0A # (D @ CHR 0x0A # ''```''))"
    unfolding sublist_sep_char [OF nl(2)] using nD(2) s3 by simp
  then have "\<not> sublist ''```json'' R" by (simp add: R_def)
  then have nj: "find_first ''```json'' R = None" unfolding find_first_None .
  have "\<not> sublist ''```json'' (''```'' @ CHR 0x0A # (D @ CHR 0x0A # ''```''))"
    unfolding sublist_sep_char [OF nl(2)] using nD(2) s3 by simp
  then have nj2: "\<not> py_in ''```json'' (''```'' @ R)"
    unfolding py_in_sublist R_def .
  have c1: "marker_content ''```json'' (''```json'' @ R) = X"
    using _ nj ff by (rule marker_content_labelled) simp
  have c2: "marker_content ''```'' (''```'' @ R) = X"
    using ff nX by (rule marker_content_plain)
  have i1: "py_in ''```json'' (''```json'' @ R)" 
    unfolding py_in_sublist by (rule sublist_append_rightI)
  have i2: "py_in ''```'' (''```'' @ R)"
    unfolding py_in_sublist by (rule sublist_append_rightI)
  have st: "py_strip X = D" unfolding X_def using D by (rule py_strip_lines)
  have "marker_candidate (''```json'' @ R) = Some D"
    unfolding marker_candidate_def using i1 c1 st by (simp only: if_True)
  then show "marker_candidate (''```json'' @ CHR 0x0A # D @ CHR 0x0A # ''```'') = Some D"
    unfolding R_def .
  have "marker_candidate (''```'' @ R) = Some D"
    unfolding marker_candidate_def using nj2 i2 c2 st by (simp only: if_True if_False)
  then show "marker_candidate (''```'' @ CHR 0x0A # D @ CHR 0x0A # ''```'') = Some D"
    unfolding R_def .
qed

subsection \<open>Where markers and fenced blocks agree\<close>







section \<open>The message filter and the configuration checks\<close>

text \<open>
  C7. A message written by the bot itself, or in a channel whose name is not the target
  channel's, makes the handler return normally with an empty trace: no reaction is added or
  removed, the model and the webhook are not called, nothing is sent and nothing is
  printed.
\<close>

theorem filter_discards:
  "author message = client_user env \<or> channel_name message \<noteq> TARGET_CHANNEL_NAME \<Longrightarrow>
   run (on_message cfg env message) = (Inr (), [])"
  by (auto simp: on_message_def run_def pure_def)

theorem filter_discards_witness:
  "run (on_message sample_config
          (sample_env (Inr (Response (Inr ''{}''))) (Inr (WebhookResponse 200 (Inr ''ok''))))
          (sample_message\<lparr>author := 1\<rparr>)) = (Inr (), [])
   \<and> run (on_message sample_config
          (sample_env (Inr (Response (Inr ''{}''))) (Inr (WebhookResponse 200 (Inr ''ok''))))
          (sample_message\<lparr>channel_name := ''general''\<rparr>)) = (Inr (), [])"
proof -
  let ?env = "sample_env (Inr (Response (Inr ''{}''))) (Inr (WebhookResponse 200 (Inr ''ok'')))"
  have a: "author (sample_message\<lparr>author := 1\<rparr>) = client_user ?env"
    by (simp add: sample_message_def sample_env_def)
  have b: "channel_name (sample_message\<lparr>channel_name := ''general''\<rparr>) \<noteq> TARGET_CHANNEL_NAME"
    by (simp add: TARGET_CHANNEL_NAME_def)
  show ?thesis
    using filter_discards [of "sample_message\<lparr>author := 1\<rparr>" ?env sample_config] a
      filter_discards [of "sample_message\<lparr>channel_name := ''general''\<rparr>" ?env sample_config] b
    by simp
qed

text \<open>
  C8. When DISCORD_TOKEN is missing (unset or empty), \<open>main\<close> prints its warning and
  returns without running the client; when it is set, \<open>main\<close> runs the client whatever
  the other two variables are. For a message of another user in the target channel, a
  missing GEMINI_API_KEY, or else a missing MAKE_WEBHOOK_URL, makes the handler print the
  corresponding warning and return: the warning is the whole trace.
\<close>

theorem missing_configuration:
  "(missing (DISCORD_TOKEN cfg) \<longrightarrow>
      main cfg = [Print ''DISCORD_TOKEN not found in .env file. Bot cannot start.''])
   \<and> (\<forall>token. DISCORD_TOKEN cfg = Some token \<and> token \<noteq> [] \<longrightarrow> main cfg = [ClientRun token])
   \<and> (author message \<noteq> client_user env \<and> channel_name message = TARGET_CHANNEL_NAME
        \<and> missing (GEMINI_API_KEY cfg) \<longrightarrow>
      run (on_message cfg env message) =
        (Inr (), [Print ''Gemini model not initialized. Skipping message processing.'']))
   \<and> (author message \<noteq> client_user env \<and> channel_name message = TARGET_CHANNEL_NAME
        \<and> \<not> missing (GEMINI_API_KEY cfg) \<and> missing (MAKE_WEBHOOK_URL cfg) \<longrightarrow>
      run (on_message cfg env message) =
        (Inr (), [Print ''Make.com webhook URL not configured. Skipping message processing.'']))"
  by (auto simp: missing_def main_def on_message_def model_def run_def print_def emit_def
           split: option.splits)

theorem missing_configuration_witness:
  "main (sample_config\<lparr>DISCORD_TOKEN := None\<rparr>) =
     [Print ''DISCORD_TOKEN not found in .env file. Bot cannot start.'']
   \<and> main (sample_config\<lparr>GEMINI_API_KEY := None, MAKE_WEBHOOK_URL := None\<rparr>) =
     [ClientRun ''token'']
   \<and> run (on_message (sample_config\<lparr>GEMINI_API_KEY := None\<rparr>)
           (sample_env (Inr (Response (Inr ''{}''))) (Inr (WebhookResponse 200 (Inr ''ok''))))
           sample_message) =
     (Inr (), [Print ''Gemini model not initialized. Skipping message processing.''])
   \<and> run (on_message (sample_config\<lparr>MAKE_WEBHOOK_URL := Some []\<rparr>)
           (sample_env (Inr (Response (Inr ''{}''))) (Inr (WebhookResponse 200 (Inr ''ok''))))
           sample_message) =
     (Inr (), [Print ''Make.com webhook URL not configured. Skipping message processing.''])"
proof -
  let ?env = "sample_env (Inr (Response (Inr ''{}''))) (Inr (WebhookResponse 200 (Inr ''ok'')))"
  have m: "author sample_message \<noteq> client_user ?env"
    "channel_name sample_message = TARGET_CHANNEL_NAME"
    by (simp_all add: sample_message_def sample_env_def TARGET_CHANNEL_NAME_def)
  show ?thesis
    using m
      missing_configuration [of "sample_config\<lparr>DISCORD_TOKEN := None\<rparr>" sample_message ?env]
      missing_configuration
        [of "sample_config\<lparr>GEMINI_API_KEY := None, MAKE_WEBHOOK_URL := None\<rparr>" sample_message ?env]
      missing_configuration [of "sample_config\<lparr>GEMINI_API_KEY := None\<rparr>" sample_message ?env]
      missing_configuration [of "sample_config\<lparr>MAKE_WEBHOOK_URL := Some []\<rparr>" sample_message ?env]
    by (simp add: missing_def sample_config_def)
qed

section \<open>The JSON extractor: priority order and round trip\<close>




text \<open>
  C3, amended. For every event record with string values whose serialisation contains no
  run of three backquotes, and every parser that reads this serialisation back as the
  record, the extractor returns the record from the serialisation wrapped in a fenced block,
  with or without the json label.
\<close>

lemma dumps_shape:
  "\<exists>D'. json_dumps_record E = CHR ''{'' # D'" "last (json_dumps_record E) = CHR ''}''"
  by (simp_all add: json_dumps_record_def)

theorem fenced_round_trip:
  assumes "parse (json_dumps_record E) = Inr (record_json E)"
    and "\<not> py_in ''```'' (json_dumps_record E)"
  shows "extract_json parse (''```json'' @ CHR 0x0A # json_dumps_record E @ CHR 0x0A # ''```'')
           = Inr (record_json E)
       \<and> extract_json parse (''```'' @ CHR 0x0A # json_dumps_record E @ CHR 0x0A # ''```'')
           = Inr (record_json E)"
proof -
  obtain D' where D: "json_dumps_record E = CHR ''{'' # D'" using dumps_shape(1) by blast
  note fb = fenced_block [OF D dumps_shape(2) assms(2)]
  from D have ne: "json_dumps_record E \<noteq> []" by simp
  show ?thesis
    unfolding extract_json_by_markers extract_by_markers_def fb
    using ne assms(1) by simp
qed


theorem fenced_round_trip_witness:
  "extract_json sample_json_loads (''```json'' @ CHR 0x0A # json_dumps_record [(''title'', ''Lunch'')] @ CHR 0x0A # ''```'')
           = Inr (record_json [(''title'', ''Lunch'')])
       \<and> extract_json sample_json_loads (''```'' @ CHR 0x0A # json_dumps_record [(''title'', ''Lunch'')] @ CHR 0x0A # ''```'')
           = Inr (record_json [(''title'', ''Lunch'')])"
proof -
  have d: "json_dumps_record [(''title'', ''Lunch'')] = ''{\"title\": \"Lunch\"}''"
    by (simp add: json_dumps_record_def encode_basestring_ascii_def escape_char_def)
  have a: "sample_json_loads (json_dumps_record [(''title'', ''Lunch'')])
      = Inr (record_json [(''title'', ''Lunch'')])"
    unfolding d by (simp add: sample_json_loads_def record_json_def)
  have b: "\<not> py_in ''```'' (json_dumps_record [(''title'', ''Lunch'')])"
    unfolding d by simp
  show ?thesis
    using fenced_round_trip [of sample_json_loads "[(''title'', ''Lunch'')]"] a b by blast
qed

text \<open>
  The round trip fails for a record whose title is three backquotes: the extractor cuts the
  serialisation at the backquotes inside the string, the parser receives an unterminated
  string, and the handler gets a JSONDecodeError instead of the record.
\<close>

lemma backtick_dumps: "json_dumps_record backtick_event =
  ''{\"title\": \"```\", \"start_datetime\": \"2025-12-25T00:00:00\", \"end_datetime\": \"2025-12-25T23:59:59\"}''"
  by (simp add: json_dumps_record_def encode_basestring_ascii_def escape_char_def backtick_event_def)

theorem fenced_round_trip_counterexample:
  "extract_json_str (''```json'' @ CHR 0x0A # json_dumps_record backtick_event @ CHR 0x0A # ''```'')
     = Inr ''{\"title\": \"''
   \<and> extract_json sample_json_loads
        (''```json'' @ CHR 0x0A # json_dumps_record backtick_event @ CHR 0x0A # ''```'')
     = Inl (Exn JSONDecodeError ''Unterminated string starting at: line 1 column 11 (char 10)'')
   \<and> extract_json sample_json_loads
        (''```json'' @ CHR 0x0A # json_dumps_record backtick_event @ CHR 0x0A # ''```'')
     \<noteq> Inr (record_json backtick_event)"
proof -
  have "extract_json_str (''```json'' @ CHR 0x0A # json_dumps_record backtick_event @ CHR 0x0A # ''```'')
     = Inr ''{\"title\": \"''"
    unfolding backtick_dumps by code_simp
  then show ?thesis
    by (simp add: extract_json_def ebind_def sample_json_loads_def)
qed

section \<open>The prompt\<close>

lemma sublist_concat:
  assumes "x \<in> set parts" "x = p @ s @ q"
  shows "py_in s (concat parts)"
proof -
  from assms(1) obtain ys zs where "parts = ys @ x # zs" by (auto dest: split_list)
  then have "concat parts = (concat ys @ p) @ s @ (q @ concat zs)"
    using assms(2) by simp
  then show ?thesis unfolding py_in_sublist sublist_def by blast
qed

text \<open>
  C9. The prompt is a function of the message text and the date string alone. For every
  text and date it contains the full-day rule with its example (\<open>event on 2025-12-25\<close>
  means start 2025-12-25T00:00:00 and end 2025-12-25T23:59:59), the rule that an event with
  only a start lasts one hour, the instruction to return an empty JSON object for text that
  describes no event, the message text and the date.
\<close>

theorem prompt_rules:
  "py_in ''If only a date is provided for the start, assume it's an all-day event for that date. For example, \"event on 2025-12-25\" means start_datetime: \"2025-12-25T00:00:00\" and end_datetime: \"2025-12-25T23:59:59\".''
     (build_prompt message_content date_str)
   \<and> py_in ''If only a start datetime is provided, assume the event is 1 hour long for the end_datetime.''
     (build_prompt message_content date_str)
   \<and> py_in ''If the text does not seem to describe a calendar event, return an empty JSON object {}.''
     (build_prompt message_content date_str)
   \<and> py_in message_content (build_prompt message_content date_str)
   \<and> py_in date_str (build_prompt message_content date_str)"
  unfolding build_prompt_def
  apply (intro conjI)
      apply (rule sublist_concat [where p = "''            - ''" and q = "''\<newline>''"]; simp)
     apply (rule sublist_concat [where p = "''            - ''" and q = "''\<newline>''"]; simp)
    apply (rule sublist_concat [where p = "''            - ''" and q = "''\<newline>''"]; simp)
   apply (rule sublist_concat [where p = "[]" and q = "[]"]; simp)
  apply (rule sublist_concat [where p = "[]" and q = "[]"]; simp)
  done

section \<open>The pipeline\<close>

subsection \<open>Running the handler\<close>

lemmas io_defs = pure_def raise_def outcome_def and_then_def then_do_def try_except_def
  emit_def print_def platform_call_def request_def message_add_reaction_def
  message_remove_reaction_def message_channel_send_def

lemma on_message_pipeline:
  "enters_pipeline cfg env message url \<Longrightarrow> on_message cfg env message = pipeline env url message"
  by (auto simp: enters_pipeline_def on_message_def model_def missing_def split: option.splits)

lemma try_except_Inr:
  "m s = (Inr x, s') \<Longrightarrow> try_except m h s = (Inr x, s')"
  by (simp add: try_except_def)

lemma try_except_Inl:
  "m s = (Inl e, s') \<Longrightarrow> try_except m h s = h e s'"
  by (simp add: try_except_def)

lemma pipeline_run:
  assumes "add_reaction env [Print (received_line message)] Thinking = None"
  shows "run (pipeline env url message) =
    (case try_except (try_body env url message) (handlers env)
            \<lparr>trace = [Print (received_line message), AddReaction Thinking],
             bound_gemini_response_text = None\<rparr>
     of (r, s) \<Rightarrow> (r, trace s))"
  using assms by (simp add: run_def pipeline_def io_defs received_line_def)

lemma empty_object_outcome:
  assumes "enters_pipeline cfg env message url"
    and "generate_content_async env (prompt_of env message) = Inr (Response (Inr text))"
    and "extract_json (json_loads env) text = Inr (JObject [])"
    and "\<forall>h. add_reaction env h Thinking = None"
    and "\<forall>h. remove_reaction env h Thinking = None"
    and "\<forall>h. add_reaction env h Shrug = None"
  shows "run (on_message cfg env message) =
     (Inr (),
      [Print (received_line message), AddReaction Thinking,
       GenerateContent (prompt_of env message), RemoveReaction Thinking,
       Print (''Gemini raw response: '' @ text), PrintParsed (JObject []),
       Print ''Gemini parsed no event details. Not sending to webhook.'',
       AddReaction Shrug])"
  using assms(2-)
  unfolding on_message_pipeline [OF assms(1)]
  by (simp add: run_def pipeline_def try_body_def remove_thinking_def io_defs
      received_line_def prompt_of_def)

lemma posts_simps [simp]:
  "posts [] = []"
  "posts (WebhookPost u j # tr) = (u, j) # posts tr"
  "posts (Print l # tr) = posts tr"
  "posts (PrintParsed v # tr) = posts tr"
  "posts (PrintTraceback e # tr) = posts tr"
  "posts (AddReaction em # tr) = posts tr"
  "posts (RemoveReaction em # tr) = posts tr"
  "posts (ChannelSend r # tr) = posts tr"
  "posts (GenerateContent p # tr) = posts tr"
  "posts (ClientRun t # tr) = posts tr"
  "posts (tr @ tr') = posts tr @ posts tr'"
  by (simp_all add: posts_def)

lemma handlers_posts: "posts (trace (snd (handlers env e s))) = posts (trace s)"
  by (auto simp: handlers_def on_JSONDecodeError_def on_BlockedPromptException_def
      on_Exception_def remove_thinking_def io_defs
      split: if_splits option.splits sum.splits prod.splits)

lemma forward_posts:
  "posts (trace (snd (try_except (forward env url ed) (handlers env) s))) = posts (trace s) @ [(url, ed)]"
proof (cases "forward env url ed s")
  case (Pair r s')
  have s': "posts (trace s') = posts (trace s) @ [(url, ed)]"
    using Pair
    by (auto simp: forward_def io_defs split: if_splits option.splits sum.splits prod.splits)
  show ?thesis
  proof (cases r)
    case (Inl e)
    with Pair s' handlers_posts [of env e s'] show ?thesis by (simp add: try_except_def)
  next
    case (Inr x)
    with Pair s' show ?thesis by (simp add: try_except_def)
  qed
qed

lemma str_int_500: "str_int 500 = ''500''"
  by code_simp

lemma str_int_200: "str_int 200 = ''200''"
  by code_simp

lemma posts_nonempty: "posts tr \<noteq> [] \<Longrightarrow> \<exists>u j. WebhookPost u j \<in> set tr"
proof (induction tr)
  case Nil
  then show ?case by simp
next
  case (Cons ev tr)
  then show ?case by (cases ev) auto
qed

lemma posts_member: "(u, j) \<in> set (posts tr) \<longleftrightarrow> WebhookPost u j \<in> set tr"
proof (induction tr)
  case Nil
  then show ?case by simp
next
  case (Cons ev tr)
  then show ?case by (cases ev) auto
qed

lemma try_body_forward:
  assumes "generate_content_async env (prompt_of env message) = Inr (Response (Inr body))"
    and "remove_reaction env
           [Print (received_line message), AddReaction Thinking,
            GenerateContent (prompt_of env message)] Thinking = None"
    and "extract_json (json_loads env) body = Inr event_details"
    and "truthy event_details"
  shows "try_body env url message
           \<lparr>trace = [Print (received_line message), AddReaction Thinking],
            bound_gemini_response_text = None\<rparr>
       = forward env url event_details
           \<lparr>trace = parsed_trace env message body event_details,
            bound_gemini_response_text = Some body\<rparr>"
  using assms
  by (simp add: try_body_def remove_thinking_def io_defs prompt_of_def parsed_trace_def)

lemma exactly_one_post:
  assumes "enters_pipeline cfg env message url"
    and "add_reaction env [Print (received_line message)] Thinking = None"
    and "generate_content_async env (prompt_of env message) = Inr (Response (Inr body))"
    and "remove_reaction env
           [Print (received_line message), AddReaction Thinking,
            GenerateContent (prompt_of env message)] Thinking = None"
    and "extract_json (json_loads env) body = Inr event_details"
    and "truthy event_details"
  shows "posts (snd (run (on_message cfg env message))) = [(url, event_details)]"
proof -
  let ?s1 = "\<lparr>trace = [Print (received_line message), AddReaction Thinking],
             bound_gemini_response_text = None\<rparr>"
  let ?s2 = "\<lparr>trace = parsed_trace env message body event_details,
             bound_gemini_response_text = Some body\<rparr>"
  have "try_except (try_body env url message) (handlers env) ?s1
      = try_except (forward env url event_details) (handlers env) ?s2"
    using try_body_forward [OF assms(3-6), of url] by (simp add: try_except_def)
  then have "snd (run (on_message cfg env message))
      = trace (snd (try_except (forward env url event_details) (handlers env) ?s2))"
    unfolding on_message_pipeline [OF assms(1)] pipeline_run [OF assms(2)]
    by (simp split: prod.splits)
  then show ?thesis
    using forward_posts [of env url event_details ?s2] by (simp add: parsed_trace_def)
qed

lemma sample_enters:
  "enters_pipeline sample_config (sample_env answer delivery) sample_message sample_url"
  by (simp add: enters_pipeline_def sample_config_def sample_env_def sample_message_def
      sample_url_def TARGET_CHANNEL_NAME_def missing_def)

lemma sample_env_simps [simp]:
  "add_reaction (sample_env answer delivery) h em = None"
  "remove_reaction (sample_env answer delivery) h em = None"
  "channel_send (sample_env answer delivery) h reply = None"
  "generate_content_async (sample_env answer delivery) p = answer"
  "session_post (sample_env answer delivery) u j = delivery"
  "json_loads (sample_env answer delivery) = sample_json_loads"
  by (simp_all add: sample_env_def)

lemma extract_empty: "extract_json sample_json_loads ''{}'' = Inr (JObject [])"
  by code_simp

lemma extract_lunch: "extract_json sample_json_loads lunch_answer = Inr lunch_event"
  unfolding lunch_answer_def lunch_event_def by code_simp

subsection \<open>No POST without a parsed, non-empty event\<close>

lemma not_entering:
  assumes "\<not> (\<exists>url. enters_pipeline cfg env message url)"
  shows "set (snd (run (on_message cfg env message))) \<subseteq> range Print"
  using assms
  by (auto simp: enters_pipeline_def on_message_def model_def missing_def run_def io_defs
      split: option.splits if_splits)

lemma handlers_no_post:
  "WebhookPost u j \<in> set (trace (snd (handlers env e s))) \<Longrightarrow> WebhookPost u j \<in> set (trace s)"
  by (auto simp: handlers_def on_JSONDecodeError_def on_BlockedPromptException_def
      on_Exception_def remove_thinking_def io_defs
      split: if_splits option.splits sum.splits prod.splits)


lemma try_body_post:
  assumes "WebhookPost u j \<in> set (trace (snd (try_body env url message s)))"
    and "WebhookPost u j \<notin> set (trace s)"
  shows "\<exists>text. u = url
      \<and> generate_content_async env (prompt_of env message) = Inr (Response (Inr text))
      \<and> remove_reaction env (trace s @ [GenerateContent (prompt_of env message)]) Thinking = None
      \<and> extract_json (json_loads env) text = Inr j \<and> truthy j"
proof (cases "generate_content_async env (prompt_of env message)")
  case (Inl e)
  with assms show ?thesis
    by (simp add: try_body_def io_defs prompt_of_def)
next
  case (Inr response)
  obtain rt where rt: "response = Response rt" by (cases response)
  show ?thesis
  proof (cases "remove_reaction env (trace s @ [GenerateContent (prompt_of env message)]) Thinking")
    case (Some e)
    with assms Inr show ?thesis
      by (simp add: try_body_def remove_thinking_def io_defs prompt_of_def)
  next
    case None
    show ?thesis
    proof (cases rt)
      case (Inl e)
      with assms Inr rt None show ?thesis
        by (simp add: try_body_def remove_thinking_def io_defs prompt_of_def)
    next
      case rtext: (Inr body)
      show ?thesis
      proof (cases "extract_json (json_loads env) body")
        case (Inl e)
        with assms Inr rt None rtext show ?thesis
          by (simp add: try_body_def remove_thinking_def io_defs prompt_of_def)
      next
        case ed: (Inr event_details)
        show ?thesis
        proof (cases "truthy event_details")
          case False
          with assms Inr rt None rtext ed show ?thesis
            by (simp add: try_body_def remove_thinking_def io_defs prompt_of_def)
        next
          case True
          with assms Inr rt None rtext ed have "u = url \<and> j = event_details"
            by (auto simp: try_body_def remove_thinking_def forward_def io_defs prompt_of_def
                split: if_splits sum.splits prod.splits)
          with Inr rt None rtext ed True show ?thesis by simp
        qed
      qed
    qed
  qed
qed

lemma post_needs_parsed_event:
  assumes "WebhookPost u j \<in> set (snd (run (on_message cfg env message)))"
  shows "\<exists>text. enters_pipeline cfg env message u
      \<and> add_reaction env [Print (received_line message)] Thinking = None
      \<and> generate_content_async env (prompt_of env message) = Inr (Response (Inr text))
      \<and> remove_reaction env
           [Print (received_line message), AddReaction Thinking,
            GenerateContent (prompt_of env message)] Thinking = None
      \<and> extract_json (json_loads env) text = Inr j \<and> truthy j"
proof -
  from assms not_entering [of cfg env message]
  obtain url where url: "enters_pipeline cfg env message url" by blast
  let ?s1 = "\<lparr>trace = [Print (received_line message), AddReaction Thinking],
             bound_gemini_response_text = None\<rparr>"
  show ?thesis
  proof (cases "add_reaction env [Print (received_line message)] Thinking")
    case (Some e)
    with assms show ?thesis
      unfolding on_message_pipeline [OF url]
      by (simp add: run_def pipeline_def io_defs received_line_def)
  next
    case None
    have run_eq: "snd (run (on_message cfg env message)) =
        trace (snd (try_except (try_body env url message) (handlers env) ?s1))"
      unfolding on_message_pipeline [OF url] using None
      by (simp add: run_def pipeline_def io_defs received_line_def split: prod.splits)
    have "WebhookPost u j \<in> set (trace (snd (try_body env url message ?s1)))"
    proof (cases "try_body env url message ?s1")
      case (Pair r s')
      show ?thesis
      proof (cases r)
        case (Inl e)
        with assms run_eq Pair
        have "WebhookPost u j \<in> set (trace (snd (handlers env e s')))"
          by (simp add: try_except_def)
        then have "WebhookPost u j \<in> set (trace s')" by (rule handlers_no_post)
        with Pair show ?thesis by simp
      next
        case (Inr x)
        with assms run_eq Pair show ?thesis by (simp add: try_except_def)
      qed
    qed
    from try_body_post [OF this] obtain body where
      "u = url" "generate_content_async env (prompt_of env message) = Inr (Response (Inr body))"
      "remove_reaction env (trace ?s1 @ [GenerateContent (prompt_of env message)]) Thinking = None"
      "extract_json (json_loads env) body = Inr j" "truthy j"
      by auto
    with url None show ?thesis by auto
  qed
qed

section \<open>The outcomes of the pipeline\<close>

text \<open>
  C4. When the model's answer parses to the empty object, the trace holds no webhook call,
  whatever the chat platform does. When moreover the platform accepts the thinking
  reaction, its removal and the shrug reaction, the handler returns normally and the trace
  ends with the shrug reaction: no cross mark, no reply.
\<close>

theorem empty_object_is_no_event:
  assumes "enters_pipeline cfg env message url"
    and "generate_content_async env (prompt_of env message) = Inr (Response (Inr body))"
    and "extract_json (json_loads env) body = Inr (JObject [])"
  shows "posts (snd (run (on_message cfg env message))) = []
    \<and> ((\<forall>h. add_reaction env h Thinking = None) \<and> (\<forall>h. remove_reaction env h Thinking = None)
        \<and> (\<forall>h. add_reaction env h Shrug = None) \<longrightarrow>
       run (on_message cfg env message) =
         (Inr (), parsed_trace env message body (JObject []) @
            [Print ''Gemini parsed no event details. Not sending to webhook.'',
             AddReaction Shrug]))"
proof -
  have "posts (snd (run (on_message cfg env message))) = []"
  proof (rule ccontr)
    assume "posts (snd (run (on_message cfg env message))) \<noteq> []"
    then obtain u j where "WebhookPost u j \<in> set (snd (run (on_message cfg env message)))"
      using posts_nonempty by blast
    from post_needs_parsed_event [OF this] assms(2,3) show False by auto
  qed
  moreover have "run (on_message cfg env message) =
         (Inr (), parsed_trace env message body (JObject []) @
            [Print ''Gemini parsed no event details. Not sending to webhook.'',
             AddReaction Shrug])"
    if "\<forall>h. add_reaction env h Thinking = None" "\<forall>h. remove_reaction env h Thinking = None"
      "\<forall>h. add_reaction env h Shrug = None"
    using empty_object_outcome [OF assms] that by (simp add: parsed_trace_def)
  ultimately show ?thesis by blast
qed

theorem empty_object_is_no_event_witness:
  "posts (snd (run (on_message sample_config
      (sample_env (Inr (Response (Inr ''{}''))) (Inr (WebhookResponse 200 (Inr ''ok''))))
      sample_message))) = []
   \<and> run (on_message sample_config
      (sample_env (Inr (Response (Inr ''{}''))) (Inr (WebhookResponse 200 (Inr ''ok''))))
      sample_message) =
     (Inr (), parsed_trace
        (sample_env (Inr (Response (Inr ''{}''))) (Inr (WebhookResponse 200 (Inr ''ok''))))
        sample_message ''{}'' (JObject []) @
        [Print ''Gemini parsed no event details. Not sending to webhook.'', AddReaction Shrug])"
  using empty_object_is_no_event
    [OF sample_enters, of "Inr (Response (Inr ''{}''))" "Inr (WebhookResponse 200 (Inr ''ok''))" "''{}''"]
  by (simp add: extract_empty parsed_trace_def)

text \<open>
  C5. When the model's answer parses to a non-empty (truthy) value and the thinking
  reaction was added and removed, the trace holds exactly one webhook call, with the
  configured URL and the parsed value, whatever the webhook answers. With a status from 200
  to 299 and the check mark accepted, the handler returns normally and the trace ends with
  the check mark: nothing is sent. With any other status, a readable body, and the warning
  reaction and the reply accepted, the trace ends with the warning reaction and the reply
  made of the status code and the first 1500 characters of the body.
\<close>

theorem webhook_status_reflected:
  assumes "enters_pipeline cfg env message url"
    and "\<forall>h. add_reaction env h Thinking = None"
    and "\<forall>h. remove_reaction env h Thinking = None"
    and "generate_content_async env (prompt_of env message) = Inr (Response (Inr body))"
    and "extract_json (json_loads env) body = Inr event_details"
    and "truthy event_details"
  shows "posts (snd (run (on_message cfg env message))) = [(url, event_details)]
    \<and> (\<forall>code answer.
          session_post env url event_details = Inr (WebhookResponse code answer)
          \<and> 200 \<le> code \<and> code < 300 \<and> (\<forall>h. add_reaction env h CheckMark = None) \<longrightarrow>
          run (on_message cfg env message) =
            (Inr (), parsed_trace env message body event_details @
               [WebhookPost url event_details,
                Print (''Webhook request successful: '' @ str_int code),
                AddReaction CheckMark]))
    \<and> (\<forall>code error_text.
          session_post env url event_details = Inr (WebhookResponse code (Inr error_text))
          \<and> \<not> (200 \<le> code \<and> code < 300) \<and> (\<forall>h. add_reaction env h Warning = None)
          \<and> (\<forall>h reply. channel_send env h reply = None) \<longrightarrow>
          run (on_message cfg env message) =
            (Inr (), parsed_trace env message body event_details @
               [WebhookPost url event_details,
                Print (''Webhook request failed: '' @ str_int code @ '' - '' @ error_text),
                AddReaction Warning,
                ChannelSend (''Error sending to calendar: '' @ str_int code @ '' - ''
                               @ take 1500 error_text)]))"
proof -
  have a: "add_reaction env [Print (received_line message)] Thinking = None"
    and r: "remove_reaction env
           [Print (received_line message), AddReaction Thinking,
            GenerateContent (prompt_of env message)] Thinking = None"
    using assms(2,3) by simp_all
  note tb = try_body_forward [OF assms(4) r assms(5,6), of url]
  have one: "posts (snd (run (on_message cfg env message))) = [(url, event_details)]"
    using assms(1) a assms(4) r assms(5,6) by (rule exactly_one_post)
  have ok: "run (on_message cfg env message) =
            (Inr (), parsed_trace env message body event_details @
               [WebhookPost url event_details,
                Print (''Webhook request successful: '' @ str_int code),
                AddReaction CheckMark])"
    if "session_post env url event_details = Inr (WebhookResponse code answer)"
      "200 \<le> code" "code < 300" "\<forall>h. add_reaction env h CheckMark = None"
    for code answer
    unfolding on_message_pipeline [OF assms(1)] pipeline_run [OF a]
    using that by (simp add: try_except_def tb forward_def io_defs)
  have ko: "run (on_message cfg env message) =
            (Inr (), parsed_trace env message body event_details @
               [WebhookPost url event_details,
                Print (''Webhook request failed: '' @ str_int code @ '' - '' @ error_text),
                AddReaction Warning,
                ChannelSend (''Error sending to calendar: '' @ str_int code @ '' - ''
                               @ take 1500 error_text)])"
    if "session_post env url event_details = Inr (WebhookResponse code (Inr error_text))"
      "\<not> (200 \<le> code \<and> code < 300)" "\<forall>h. add_reaction env h Warning = None"
      "\<forall>h reply. channel_send env h reply = None"
    for code error_text
    unfolding on_message_pipeline [OF assms(1)] pipeline_run [OF a]
    using that by (auto simp: try_except_def tb forward_def io_defs)
  from one ok ko show ?thesis by blast
qed

theorem webhook_status_reflected_witness:
  "run (on_message sample_config
      (sample_env (Inr (Response (Inr lunch_answer))) (Inr (WebhookResponse 200 (Inr ''ok''))))
      sample_message) =
     (Inr (), parsed_trace
        (sample_env (Inr (Response (Inr lunch_answer))) (Inr (WebhookResponse 200 (Inr ''ok''))))
        sample_message lunch_answer lunch_event @
        [WebhookPost sample_url lunch_event, Print ''Webhook request successful: 200'',
         AddReaction CheckMark])
   \<and> run (on_message sample_config
      (sample_env (Inr (Response (Inr lunch_answer))) (Inr (WebhookResponse 500 (Inr ''boom''))))
      sample_message) =
     (Inr (), parsed_trace
        (sample_env (Inr (Response (Inr lunch_answer))) (Inr (WebhookResponse 500 (Inr ''boom''))))
        sample_message lunch_answer lunch_event @
        [WebhookPost sample_url lunch_event, Print ''Webhook request failed: 500 - boom'',
         AddReaction Warning, ChannelSend ''Error sending to calendar: 500 - boom''])
   \<and> posts (snd (run (on_message sample_config
      (sample_env (Inr (Response (Inr lunch_answer))) (Inr (WebhookResponse 500 (Inr ''boom''))))
      sample_message))) = [(sample_url, lunch_event)]"
proof -
  have t: "truthy lunch_event" by (simp add: lunch_event_def)
  note w = webhook_status_reflected [OF sample_enters, where body = lunch_answer
      and event_details = lunch_event and answer1 = "Inr (Response (Inr lunch_answer))"]
  show ?thesis
    using w [of "Inr (WebhookResponse 200 (Inr ''ok''))"]
      w [of "Inr (WebhookResponse 500 (Inr ''boom''))"] t
    by (simp add: extract_lunch str_int_200 str_int_500 parsed_trace_def)
qed

text \<open>
  C10. A webhook call appears in the trace only if the message entered the pipeline, the
  thinking reaction was added, the model returned a text, the thinking reaction was
  removed, and the extractor parsed that text to the posted value, which is non-empty
  (truthy). So after a missing, empty or malformed JSON block, a content-safety block or
  any other exception raised before the forwarding step, the trace holds no webhook call.
\<close>

theorem post_only_after_parse:
  "WebhookPost u j \<in> set (snd (run (on_message cfg env message))) \<Longrightarrow>
   \<exists>body. enters_pipeline cfg env message u
      \<and> add_reaction env [Print (received_line message)] Thinking = None
      \<and> generate_content_async env (prompt_of env message) = Inr (Response (Inr body))
      \<and> remove_reaction env
           [Print (received_line message), AddReaction Thinking,
            GenerateContent (prompt_of env message)] Thinking = None
      \<and> extract_json (json_loads env) body = Inr j \<and> truthy j"
  by (rule post_needs_parsed_event)

theorem post_only_after_parse_witness:
  "WebhookPost sample_url lunch_event \<in> set (snd (run (on_message sample_config
      (sample_env (Inr (Response (Inr lunch_answer))) (Inr (WebhookResponse 200 (Inr ''ok''))))
      sample_message)))
   \<and> (\<exists>body. generate_content_async
          (sample_env (Inr (Response (Inr lunch_answer))) (Inr (WebhookResponse 200 (Inr ''ok''))))
          (prompt_of
            (sample_env (Inr (Response (Inr lunch_answer))) (Inr (WebhookResponse 200 (Inr ''ok''))))
            sample_message) = Inr (Response (Inr body))
        \<and> extract_json sample_json_loads body = Inr lunch_event \<and> truthy lunch_event)"
proof -
  let ?env = "sample_env (Inr (Response (Inr lunch_answer))) (Inr (WebhookResponse 200 (Inr ''ok'')))"
  have "posts (snd (run (on_message sample_config ?env sample_message)))
      = [(sample_url, lunch_event)]"
    by (rule exactly_one_post [OF sample_enters, where body = lunch_answer])
       (simp_all add: extract_lunch lunch_event_def)
  then have m: "WebhookPost sample_url lunch_event
      \<in> set (snd (run (on_message sample_config ?env sample_message)))"
    using posts_member [of sample_url lunch_event
        "snd (run (on_message sample_config ?env sample_message))"]
    by simp
  from post_only_after_parse [OF m] m show ?thesis by auto
qed

section \<open>Errors inside the handler\<close>

text \<open>
  C1, amended. When the body of the \<open>try\<close> statement raises an exception that is an
  \<open>Exception\<close> but neither a JSONDecodeError nor a BlockedPromptException, and the last
  handler's own three calls succeed (the removal of the thinking reaction, the cross mark
  reaction and the reply, each asked with the trace as it is then), the handler returns
  normally; the trace is the trace up to the exception followed by the two prints, the
  removal, the cross mark and the reply, whose variable part is at most 1000 characters.
\<close>

theorem unexpected_exception_reported:
  assumes "enters_pipeline cfg env message url"
    and "add_reaction env [Print (received_line message)] Thinking = None"
    and "try_body env url message
           \<lparr>trace = [Print (received_line message), AddReaction Thinking],
            bound_gemini_response_text = None\<rparr> = (Inl e, s')"
    and "cls e \<noteq> JSONDecodeError" and "cls e \<noteq> BlockedPromptException"
    and "is_Exception (cls e)"
    and "remove_reaction env (trace s' @ take 2 (unexpected_report e)) Thinking = None"
    and "add_reaction env (trace s' @ take 3 (unexpected_report e)) CrossMark = None"
    and "channel_send env (trace s' @ take 4 (unexpected_report e))
           (''An unexpected error occurred: '' @ take 1000 (str e)) = None"
  shows "run (on_message cfg env message) = (Inr (), trace s' @ unexpected_report e)
    \<and> length (take 1000 (str e)) \<le> 1000"
proof -
  have "try_except (try_body env url message) (handlers env)
           \<lparr>trace = [Print (received_line message), AddReaction Thinking],
            bound_gemini_response_text = None\<rparr> = handlers env e s'"
    using assms(3) by (rule try_except_Inl)
  moreover have "handlers env e s' = on_Exception env e s'"
    using assms(4-6) by (simp add: handlers_def)
  moreover have "on_Exception env e s' =
      (Inr (), s'\<lparr>trace := trace s' @ unexpected_report e\<rparr>)"
    using assms(7-9)
    by (simp add: on_Exception_def remove_thinking_def io_defs unexpected_report_def)
  ultimately show ?thesis
    unfolding on_message_pipeline [OF assms(1)] pipeline_run [OF assms(2)]
    by simp
qed

theorem unexpected_exception_reported_witness:
  "run (on_message sample_config model_down sample_message) =
     (Inr (),
      [Print (received_line sample_message), AddReaction Thinking,
       GenerateContent (prompt_of model_down sample_message),
       Print ''An unexpected error occurred: 503 Service Unavailable'',
       PrintTraceback (Exn OtherException ''503 Service Unavailable''),
       RemoveReaction Thinking, AddReaction CrossMark,
       ChannelSend ''An unexpected error occurred: 503 Service Unavailable''])"
proof -
  let ?e = "Exn OtherException ''503 Service Unavailable''"
  let ?s = "\<lparr>trace = [Print (received_line sample_message), AddReaction Thinking,
                      GenerateContent (prompt_of model_down sample_message)],
            bound_gemini_response_text = None\<rparr>"
  have en: "enters_pipeline sample_config model_down sample_message sample_url"
    unfolding model_down_def by (rule sample_enters)
  have tb: "try_body model_down sample_url sample_message
           \<lparr>trace = [Print (received_line sample_message), AddReaction Thinking],
            bound_gemini_response_text = None\<rparr> = (Inl ?e, ?s)"
    by (simp add: try_body_def io_defs model_down_def prompt_of_def)
  have "run (on_message sample_config model_down sample_message) =
      (Inr (), trace ?s @ unexpected_report ?e) \<and> length (take 1000 (str ?e)) \<le> 1000"
    using en _ tb
    by (rule unexpected_exception_reported) (simp_all add: model_down_def)
  then show ?thesis by (simp add: unexpected_report_def)
qed

text \<open>
  The claim as stated fails when a call of the error handler itself raises: with the model
  down and a platform that refuses the cross mark, the refusal leaves \<open>on_message\<close> as
  an exception, and no reply is sent.
\<close>

theorem unexpected_exception_reported_counterexample:
  "run (on_message sample_config model_down_reactions_forbidden sample_message) =
     (Inl (Exn OtherException ''403 Forbidden''),
      [Print (received_line sample_message), AddReaction Thinking,
       GenerateContent (prompt_of model_down_reactions_forbidden sample_message),
       Print ''An unexpected error occurred: 503 Service Unavailable'',
       PrintTraceback (Exn OtherException ''503 Service Unavailable''),
       RemoveReaction Thinking, AddReaction CrossMark])"
proof -
  have en: "enters_pipeline sample_config model_down_reactions_forbidden sample_message sample_url"
    by (simp add: enters_pipeline_def sample_config_def sample_env_def sample_message_def
      sample_url_def TARGET_CHANNEL_NAME_def missing_def model_down_reactions_forbidden_def
      model_down_def)
  show ?thesis
    unfolding on_message_pipeline [OF en]
    by (simp add: run_def pipeline_def try_body_def handlers_def on_Exception_def
        remove_thinking_def io_defs model_down_reactions_forbidden_def model_down_def
        sample_env_def received_line_def prompt_of_def)
qed

text \<open>
  C6. The claim is that a failed removal of the thinking reaction is absorbed. On the code
  it is not: when the reaction is already gone and the removal at line 120 raises
  NotFound, matching it against \<open>except main.NotFound\<close> raises AttributeError; the last
  handler catches that, its own removal at line 188 fails the same way, and the
  AttributeError leaves \<open>on_message\<close> before any further reaction or reply, although the
  model's answer was the empty object.
\<close>

theorem removal_failure_escapes:
  "run (on_message sample_config reaction_already_gone sample_message) =
     (Inl attribute_error,
      [Print (received_line sample_message), AddReaction Thinking,
       GenerateContent (prompt_of reaction_already_gone sample_message),
       RemoveReaction Thinking,
       Print (''An unexpected error occurred: '' @ str attribute_error),
       PrintTraceback attribute_error,
       RemoveReaction Thinking])"
proof -
  have en: "enters_pipeline sample_config reaction_already_gone sample_message sample_url"
    by (simp add: enters_pipeline_def sample_config_def sample_env_def sample_message_def
      sample_url_def TARGET_CHANNEL_NAME_def missing_def reaction_already_gone_def)
  show ?thesis
    unfolding on_message_pipeline [OF en]
    by (simp add: run_def pipeline_def try_body_def handlers_def on_Exception_def
        remove_thinking_def io_defs reaction_already_gone_def
        sample_env_def received_line_def prompt_of_def attribute_error_def)
qed

end
